theory Spec2Isabelle
  imports Main
begin

section \<open>React values\<close>

text \<open>
  The repository is a React component library. Its components return JSX, so the values
  of the model are React nodes. A prop of an element is a string attribute, a callback,
  or the object handed to a context provider.

  The only state in the code is the pair of \<^verbatim>\<open>useState\<close> cells of
  \<^verbatim>\<open>CMSProvider\<close> (\<^verbatim>\<open>Readme.md\<close>, lines 107-134):
  \<^verbatim>\<open>const [user, setUser] = useState(null);\<close> and
  \<^verbatim>\<open>const [isEditMode, setIsEditMode] = useState(false);\<close>.
  A user is an object of the authentication client: it is truthy whenever it is not null.
\<close>

datatype user = User (uid: string)

record session =
  session_user :: "user option"

record cms_state =
  user :: "user option"
  isEditMode :: bool

text \<open>The one callback the code builds: \<^verbatim>\<open>() => setIsEditMode(!isEditMode)\<close>,
  a call of the setter with the value computed when the closure was created.\<close>

datatype action = SetIsEditMode bool

text \<open>The object handed to the context:
  \<^verbatim>\<open>value={{ user, isEditMode, setIsEditMode }}\<close>. The third field is the raw
  setter of the \<^verbatim>\<open>isEditMode\<close> cell: given a value, it is the call that stores it.\<close>

record cms_context =
  ctx_user :: "user option"
  ctx_isEditMode :: bool
  ctx_setIsEditMode :: "bool \<Rightarrow> action"

datatype prop_value =
    Str string
  | Handler action
  | ContextValue cms_context

text \<open>\<^verbatim>\<open>React.ReactNode\<close>: \<^verbatim>\<open>null\<close> and \<^verbatim>\<open>false\<close> render nothing,
  a string renders as text, an element has a type, props and children.\<close>

datatype react_node =
    RNull
  | RFalse
  | RText string
  | Element string "(string \<times> prop_value) list" "react_node list"

fun element_type :: "react_node \<Rightarrow> string option" where
  "element_type (Element t ps cs) = Some t"
| "element_type _ = None"

fun element_props :: "react_node \<Rightarrow> (string \<times> prop_value) list" where
  "element_props (Element t ps cs) = ps"
| "element_props _ = []"

fun element_children :: "react_node \<Rightarrow> react_node list" where
  "element_children (Element t ps cs) = cs"
| "element_children _ = []"

section \<open>The content-region component\<close>

text \<open>
  \<^verbatim>\<open>src/Editable.tsx\<close>:
  \<^verbatim>\<open>
  export const Editable = ({ id, children }: { id: string, children: React.ReactNode }) => {
    // Your logic here
    return <div data-cms-id={id}>{children}</div>;
  };
  \<close>
  A function component is called by React with its props; whatever else it sees of its
  surroundings it reads through hooks. The first argument of the model is that
  surrounding: the state of the nearest \<^verbatim>\<open>CMSProvider\<close>, from which the value of
  its context is built, or \<open>None\<close> when the component is rendered outside any
  provider. The body of \<^verbatim>\<open>Editable\<close> calls no hook, so the argument does not
  occur on the right-hand side.
\<close>

record editable_props =
  id_prop :: string
  children :: react_node

definition Editable :: "cms_state option \<Rightarrow> editable_props \<Rightarrow> react_node" where
  "Editable ctx p = Element ''div'' [(''data-cms-id'', Str (id_prop p))] [children p]"

text \<open>
  What would make markup an editing affordance: a prop that is a callback or the
  \<^verbatim>\<open>contentEditable\<close> attribute, or an element that takes input (a form control, or
  the provider's \<^verbatim>\<open>EditToggle\<close>). A node is interactive when an affordance occurs
  anywhere in it: on the node itself or on any descendant.
\<close>

fun is_affordance :: "string \<times> prop_value \<Rightarrow> bool" where
  "is_affordance (k, Handler a) = True"
| "is_affordance (k, v) = (k = ''contentEditable'')"

definition input_element :: "string \<Rightarrow> bool" where
  "input_element t =
     (t \<in> set [''input'', ''textarea'', ''select'', ''button'', ''form'', ''EditToggle''])"

fun interactive :: "react_node \<Rightarrow> bool" where
  "interactive (Element t ps cs) =
     (input_element t \<or> list_ex is_affordance ps \<or> list_ex interactive cs)"
| "interactive _ = False"

section \<open>The provider\<close>

text \<open>
  \<^verbatim>\<open>useState(null)\<close> and \<^verbatim>\<open>useState(false)\<close>, and the two setters.
\<close>

definition initial :: cms_state where
  "initial = \<lparr>user = None, isEditMode = False\<rparr>"

definition setUser :: "user option \<Rightarrow> cms_state \<Rightarrow> cms_state" where
  "setUser u s = s\<lparr>user := u\<rparr>"

definition setIsEditMode :: "bool \<Rightarrow> cms_state \<Rightarrow> cms_state" where
  "setIsEditMode b s = s\<lparr>isEditMode := b\<rparr>"

text \<open>\<^verbatim>\<open>session?.user ?? null\<close>\<close>

definition session_user_or_null :: "session option \<Rightarrow> user option" where
  "session_user_or_null sess = (case sess of None \<Rightarrow> None | Some x \<Rightarrow> session_user x)"

text \<open>
  The two callbacks of the effect: the one-shot
  \<^verbatim>\<open>getSession().then(({ data: { session } }) => setUser(session?.user ?? null))\<close>
  and the listener
  \<^verbatim>\<open>onAuthStateChange((_event, session) => setUser(session?.user ?? null))\<close>.
  A login notification carries a session, a logout notification carries none.
\<close>

definition getSession_then :: "session option \<Rightarrow> cms_state \<Rightarrow> cms_state" where
  "getSession_then sess s = setUser (session_user_or_null sess) s"

definition onAuthStateChange :: "session option \<Rightarrow> cms_state \<Rightarrow> cms_state" where
  "onAuthStateChange sess s = setUser (session_user_or_null sess) s"

text \<open>
  The two conditional slots of the returned tree:
  \<^verbatim>\<open>{!user && <AdminLoginButton />}\<close> and
  \<^verbatim>\<open>{user && <EditToggle onToggle={() => setIsEditMode(!isEditMode)} />}\<close>.
  With a user, \<^verbatim>\<open>!user\<close> is \<^verbatim>\<open>false\<close>; without one, \<^verbatim>\<open>user\<close> is
  \<^verbatim>\<open>null\<close>, and the closure is not built.
\<close>

definition loginSlot :: "cms_state \<Rightarrow> react_node" where
  "loginSlot s = (if user s = None then Element ''AdminLoginButton'' [] [] else RFalse)"

definition toggleSlot :: "cms_state \<Rightarrow> react_node" where
  "toggleSlot s =
     (if user s \<noteq> None
      then Element ''EditToggle'' [(''onToggle'', Handler (SetIsEditMode (\<not> isEditMode s)))] []
      else RNull)"

definition context_value :: "cms_state \<Rightarrow> cms_context" where
  "context_value s =
     \<lparr>ctx_user = user s, ctx_isEditMode = isEditMode s, ctx_setIsEditMode = SetIsEditMode\<rparr>"

definition CMSProvider :: "cms_state \<Rightarrow> react_node \<Rightarrow> react_node" where
  "CMSProvider s cs =
     Element ''CMSContext.Provider'' [(''value'', ContextValue (context_value s))]
       [cs, loginSlot s, toggleSlot s]"

text \<open>Running a callback found in the tree.\<close>

fun run_action :: "action \<Rightarrow> cms_state \<Rightarrow> cms_state" where
  "run_action (SetIsEditMode b) s = setIsEditMode b s"

text \<open>The \<^verbatim>\<open>onToggle\<close> callback of a rendered node, if the node is the toggle.\<close>

fun onToggle_of :: "react_node \<Rightarrow> action option" where
  "onToggle_of (Element t ps cs) =
     (if t = ''EditToggle''
      then (case map_of ps ''onToggle'' of Some (Handler a) \<Rightarrow> Some a | _ \<Rightarrow> None)
      else None)"
| "onToggle_of _ = None"

text \<open>
  What can happen to a mounted provider: the initial session query resolves, the
  authentication client notifies a login or a logout, the user activates the toggle
  that the current render put on the page, or a component below the provider calls the
  \<^verbatim>\<open>setIsEditMode\<close> it found in the context value. Activating the toggle is
  possible only when the toggle is there: \<open>dispatch\<close> returns \<open>None\<close> when the
  page has no toggle, and \<open>step\<close> then leaves the state as it is. The call of the
  context's setter is possible in every state: the code puts no condition on it.
\<close>

datatype event =
    GetSessionResolved "session option"
  | AuthStateChange "session option"
  | ClickEditToggle
  | ContextSetIsEditMode bool

fun dispatch :: "cms_state \<Rightarrow> event \<Rightarrow> cms_state option" where
  "dispatch s (GetSessionResolved sess) = Some (getSession_then sess s)"
| "dispatch s (AuthStateChange sess) = Some (onAuthStateChange sess s)"
| "dispatch s ClickEditToggle =
     (case onToggle_of (toggleSlot s) of None \<Rightarrow> None | Some a \<Rightarrow> Some (run_action a s))"
| "dispatch s (ContextSetIsEditMode b) =
     Some (run_action (ctx_setIsEditMode (context_value s) b) s)"

definition step :: "cms_state \<Rightarrow> event \<Rightarrow> cms_state" where
  "step s e = (case dispatch s e of None \<Rightarrow> s | Some s' \<Rightarrow> s')"

fun run :: "cms_state \<Rightarrow> event list \<Rightarrow> cms_state" where
  "run s [] = s"
| "run s (e # es) = run (step s e) es"



section \<open>The content store of the specification\<close>

text \<open>
  Modelled from the spec: the ContentStore cache and its \<^verbatim>\<open>get\<close>, which the
  repository does not contain. Section 3 of the specification gives the record
  \<^verbatim>\<open>{ id, value, lastUpdated }\<close> and the cache as a mapping from id to record;
  section 4.3 says that \<^verbatim>\<open>get(id)\<close> returns the cached value, or a fallback
  supplied by the caller if no value is cached.
\<close>

record content_record =
  rec_id :: string
  rec_value :: react_node
  lastUpdated :: nat

type_synonym content_cache = "string \<rightharpoonup> content_record"

definition ContentStore_get :: "content_cache \<Rightarrow> string \<Rightarrow> react_node \<Rightarrow> react_node" where
  "ContentStore_get cache i fallback =
     (case cache i of None \<Rightarrow> fallback | Some r \<Rightarrow> rec_value r)"

section \<open>Facts about the provider's transitions\<close>

lemma toggleSlot_no_user: "user s = None \<Longrightarrow> toggleSlot s = RNull"
  by (simp add: toggleSlot_def)

lemma onToggle_of_toggleSlot:
  "onToggle_of (toggleSlot s) =
     (if user s = None then None else Some (SetIsEditMode (\<not> isEditMode s)))"
  by (simp add: toggleSlot_def)

lemma dispatch_ClickEditToggle:
  "dispatch s ClickEditToggle =
     (if user s = None then None else Some (s\<lparr>isEditMode := \<not> isEditMode s\<rparr>))"
  by (simp add: onToggle_of_toggleSlot setIsEditMode_def)

lemma step_ClickEditToggle:
  "step s ClickEditToggle = (if user s = None then s else s\<lparr>isEditMode := \<not> isEditMode s\<rparr>)"
  unfolding step_def dispatch_ClickEditToggle by simp

lemma step_AuthStateChange:
  "step s (AuthStateChange sess) = s\<lparr>user := session_user_or_null sess\<rparr>"
  by (simp add: step_def onAuthStateChange_def setUser_def)


lemma CMSProvider_children_no_user:
  "user s = None \<Longrightarrow>
     element_children (CMSProvider s cs) = [cs, Element ''AdminLoginButton'' [] [], RNull]"
  by (simp add: CMSProvider_def loginSlot_def toggleSlot_def)

lemma step_GetSessionResolved:
  "step s (GetSessionResolved sess) = s\<lparr>user := session_user_or_null sess\<rparr>"
  by (simp add: step_def getSession_then_def setUser_def)




lemma run_toggle_no_user: "user s = None \<Longrightarrow> run s (replicate n ClickEditToggle) = s"
  by (induction n) (simp_all add: step_ClickEditToggle)

lemma run_login_toggle:
  "run initial [AuthStateChange (Some \<lparr>session_user = Some u\<rparr>), ClickEditToggle] =
     \<lparr>user = Some u, isEditMode = True\<rparr>"
  by (simp add: step_AuthStateChange step_ClickEditToggle session_user_or_null_def initial_def)

lemma run_login_toggle_logout:
  "run initial [AuthStateChange (Some \<lparr>session_user = Some u\<rparr>), ClickEditToggle,
      AuthStateChange None] = \<lparr>user = None, isEditMode = True\<rparr>"
  by (simp add: step_AuthStateChange step_ClickEditToggle session_user_or_null_def initial_def)

section \<open>The content region\<close>

text \<open>
  C9. For every id and every children value, \<^verbatim>\<open>Editable\<close> returns one element: a
  \<^verbatim>\<open>div\<close> whose only prop is \<^verbatim>\<open>data-cms-id\<close>, equal to the id given, and whose
  only child is the children value given, unchanged.
\<close>

theorem C9_Editable_wrapper:
  "element_type (Editable ctx p) = Some ''div''
   \<and> element_props (Editable ctx p) = [(''data-cms-id'', Str (id_prop p))]
   \<and> map_of (element_props (Editable ctx p)) ''data-cms-id'' = Some (Str (id_prop p))
   \<and> element_children (Editable ctx p) = [children p]"
  by (simp add: Editable_def)

text \<open>
  C10. The markup of \<^verbatim>\<open>Editable\<close> depends on its two props alone: whatever the
  surrounding provider state (authenticated or not, edit mode on or off, or no provider
  at all), two renders with the same props give the same node.
\<close>

theorem C10_Editable_context_independent:
  "Editable ctx1 p = Editable ctx2 p"
  by (simp add: Editable_def)

text \<open>
  C2. Whenever edit mode is not active, and in particular whenever no user is
  authenticated, the node returned by \<^verbatim>\<open>Editable\<close> is plain markup: one
  \<^verbatim>\<open>div\<close>, whose only prop is the inert \<^verbatim>\<open>data-cms-id\<close> string (no callback,
  no \<^verbatim>\<open>contentEditable\<close>), around the content given by the caller and nothing
  else. No affordance is added anywhere in the tree: the node is interactive exactly when
  the caller's own content is. It is the very node that a page without any provider
  renders.
\<close>

theorem C2_Editable_plain_when_not_editing:
  assumes "ctx = None \<or> (\<exists>s. ctx = Some s \<and> (\<not> isEditMode s \<or> user s = None))"
  shows "element_type (Editable ctx p) = Some ''div''
         \<and> element_props (Editable ctx p) = [(''data-cms-id'', Str (id_prop p))]
         \<and> \<not> list_ex is_affordance (element_props (Editable ctx p))
         \<and> element_children (Editable ctx p) = [children p]
         \<and> interactive (Editable ctx p) = interactive (children p)
         \<and> Editable ctx p = Editable None p"
  by (simp add: Editable_def input_element_def)

theorem C2_Editable_plain_witness:
  "element_type (Editable (Some initial)
        \<lparr>id_prop = ''home-title'', children = Element ''h1'' [] [RText ''My Static Title'']\<rparr>) = Some ''div''
   \<and> element_props (Editable (Some initial)
        \<lparr>id_prop = ''home-title'', children = Element ''h1'' [] [RText ''My Static Title'']\<rparr>)
       = [(''data-cms-id'', Str ''home-title'')]
   \<and> element_children (Editable (Some initial)
        \<lparr>id_prop = ''home-title'', children = Element ''h1'' [] [RText ''My Static Title'']\<rparr>)
       = [Element ''h1'' [] [RText ''My Static Title'']]
   \<and> \<not> interactive (Editable (Some initial)
        \<lparr>id_prop = ''home-title'', children = Element ''h1'' [] [RText ''My Static Title'']\<rparr>)
   \<and> Editable (Some initial)
        \<lparr>id_prop = ''home-title'', children = Element ''h1'' [] [RText ''My Static Title'']\<rparr>
       = Editable None
        \<lparr>id_prop = ''home-title'', children = Element ''h1'' [] [RText ''My Static Title'']\<rparr>"
proof -
  have unauthenticated:
    "Some initial = None \<or> (\<exists>s. Some initial = Some s \<and> (\<not> isEditMode s \<or> user s = None))"
    by (simp add: initial_def)
  have plain_content: "\<not> interactive (Element ''h1'' [] [RText ''My Static Title''])"
    by (simp add: input_element_def)
  from C2_Editable_plain_when_not_editing [OF unauthenticated,
        of "\<lparr>id_prop = ''home-title'', children = Element ''h1'' [] [RText ''My Static Title'']\<rparr>"]
    plain_content
  show ?thesis
    unfolding editable_props.select_convs by blast
qed

text \<open>
  C3, as the specification states it: the content region renders what
  \<^verbatim>\<open>get(id)\<close> returns, the cached value when there is one. It fails: with
  \<^verbatim>\<open>"New Title"\<close> cached for \<^verbatim>\<open>home-title\<close>, the region still renders its
  fallback.
\<close>

theorem C3_cached_value_not_rendered:
  "ContentStore_get
      [''home-title'' \<mapsto> \<lparr>rec_id = ''home-title'', rec_value = RText ''New Title'', lastUpdated = 0\<rparr>]
      ''home-title'' (RText ''My Static Title'') = RText ''New Title''
   \<and> element_children (Editable None \<lparr>id_prop = ''home-title'', children = RText ''My Static Title''\<rparr>)
       = [RText ''My Static Title'']
   \<and> element_children (Editable None \<lparr>id_prop = ''home-title'', children = RText ''My Static Title''\<rparr>)
       \<noteq> [ContentStore_get
            [''home-title'' \<mapsto> \<lparr>rec_id = ''home-title'', rec_value = RText ''New Title'', lastUpdated = 0\<rparr>]
            ''home-title'' (RText ''My Static Title'')]"
  by (simp add: ContentStore_get_def Editable_def)

text \<open>
  C3, amended: for every id and fallback, the content region renders the fallback
  given by the caller, unchanged, whatever is cached for that id. This is what
  \<^verbatim>\<open>get(id)\<close> returns exactly when no value is cached for the id, or the cached
  value is the fallback itself.
\<close>

theorem C3_Editable_renders_fallback:
  "element_children (Editable ctx p) = [children p]
   \<and> (element_children (Editable ctx p) = [ContentStore_get cache (id_prop p) (children p)])
       = (case cache (id_prop p) of None \<Rightarrow> True | Some r \<Rightarrow> rec_value r = children p)"
  by (auto simp add: Editable_def ContentStore_get_def split: option.split)

section \<open>Edit mode and authentication\<close>




text \<open>
  C5, as the specification states it: a logout while editing forces the mode to
  viewing. It fails: after a login and one use of the toggle the mode is editing, and
  the logout notification that follows leaves it so, with no user.
\<close>

theorem C5_logout_keeps_isEditMode:
  "isEditMode (run initial
      [AuthStateChange (Some \<lparr>session_user = Some (User ''admin'')\<rparr>), ClickEditToggle])
   \<and> isEditMode (run initial
      [AuthStateChange (Some \<lparr>session_user = Some (User ''admin'')\<rparr>), ClickEditToggle,
       AuthStateChange None])
   \<and> user (run initial
      [AuthStateChange (Some \<lparr>session_user = Some (User ''admin'')\<rparr>), ClickEditToggle,
       AuthStateChange None]) = None"
  by (simp only: run_login_toggle run_login_toggle_logout) simp

text \<open>
  C5, amended: in every state, a logout notification clears the user within the same
  notification turn and leaves the \<^verbatim>\<open>isEditMode\<close> flag as it was. The render that
  follows has the login button and no toggle.
\<close>

theorem C5_logout_clears_user_only:
  "step s (AuthStateChange None) = onAuthStateChange None s
   \<and> user (onAuthStateChange None s) = None
   \<and> isEditMode (onAuthStateChange None s) = isEditMode s
   \<and> element_children (CMSProvider (onAuthStateChange None s) cs)
       = [cs, Element ''AdminLoginButton'' [] [], RNull]"
proof -
  have cleared: "user (onAuthStateChange None s) = None"
    by (simp add: onAuthStateChange_def setUser_def session_user_or_null_def)
  have "isEditMode (onAuthStateChange None s) = isEditMode s"
    by (simp add: onAuthStateChange_def setUser_def)
  moreover have "step s (AuthStateChange None) = onAuthStateChange None s"
    by (simp add: step_def)
  ultimately show ?thesis
    using cleared by (simp add: CMSProvider_children_no_user)
qed





end
